theory Spec2Isabelle
  imports Main
begin

section \<open>Values, documents and the document store\<close>

text \<open>
  The program is the pair of Firestore security rule files of the repository:
  \<^verbatim>\<open>firestore.rules\<close> (the current generation) and an older copy of it (the legacy
  generation). A rule file is a tree of \<^verbatim>\<open>match\<close> blocks; each block holds
  \<^verbatim>\<open>allow\<close> statements, a list of operations and a condition. The embedding writes
  every condition of the two files as a HOL term over the combinators below, one
  definition per \<^verbatim>\<open>match\<close> block and per helper function.

  A document is a list of fields; a field holds null, a boolean, an integer, a string,
  bytes, a list or a nested map. \<open>VOther\<close> stands for the remaining scalar types
  (double, timestamp, geopoint, reference), on which the rules of this repository can
  only test equality.
\<close>

datatype val =
    VNull
  | VBool bool
  | VInt int
  | VStr string
  | VBytes "nat list"
  | VList "val list"
  | VMap "(string \<times> val) list"
  | VOther nat

type_synonym doc = "(string \<times> val) list"

text \<open>A document path below \<^verbatim>\<open>/databases/{database}/documents\<close>, as its segments.\<close>

type_synonym docpath = "string list"

type_synonym store = "docpath \<Rightarrow> doc option"

datatype operation = Read | Create | Update | Delete

datatype decision = Allow | Deny

text \<open>
  One request against one snapshot of the store: \<open>auth\<close> is \<^verbatim>\<open>request.auth.uid\<close>
  (\<open>None\<close> when \<^verbatim>\<open>request.auth\<close> is null), \<open>path\<close> the document addressed and
  \<open>incoming\<close> is \<^verbatim>\<open>request.resource.data\<close> (\<open>None\<close> when the request carries no
  document). \<^verbatim>\<open>resource\<close> is the document stored at \<open>path\<close>.
\<close>

record ctx =
  db :: store
  auth :: "string option"
  path :: docpath
  incoming :: "doc option"

section \<open>Evaluation of conditions\<close>

text \<open>
  An expression evaluates to a value or fails; \<open>None\<close> is the failure. Reading a field
  that a map does not have, reading a field of something that is not a map, \<^verbatim>\<open>.data\<close> of
  a \<^verbatim>\<open>get\<close> that found no document, \<^verbatim>\<open>.uid\<close> of a null \<^verbatim>\<open>request.auth\<close> and
  \<^verbatim>\<open>in\<close> or \<^verbatim>\<open>size()\<close> on a value of the wrong type all fail. A failure is a value
  of the evaluation, not an exception: an \<^verbatim>\<open>allow\<close> statement grants when its
  condition evaluates to true, and a request is allowed when some statement for its
  operation grants.

  The rules language is based on the Common Expression Language, whose \<^verbatim>\<open>&&\<close> and
  \<^verbatim>\<open>||\<close> decide as soon as one operand decides: \<^verbatim>\<open>a || b\<close> is true when either
  operand is true and \<^verbatim>\<open>a && b\<close> is false when either operand is false, even when the
  other operand fails; otherwise a failing operand makes the result fail. Where no
  operand fails this is the usual left-to-right short-circuit evaluation.
\<close>

definition and_r :: "bool option \<Rightarrow> bool option \<Rightarrow> bool option" where
  "and_r a b =
     (if a = Some False \<or> b = Some False then Some False
      else if a = None \<or> b = None then None
      else Some True)"

definition or_r :: "bool option \<Rightarrow> bool option \<Rightarrow> bool option" where
  "or_r a b =
     (if a = Some True \<or> b = Some True then Some True
      else if a = None \<or> b = None then None
      else Some False)"

definition not_r :: "bool option \<Rightarrow> bool option" where
  "not_r a = (case a of None \<Rightarrow> None | Some x \<Rightarrow> Some (\<not> x))"

text \<open>
  \<^verbatim>\<open>==\<close> compares two values of any types; values of different types are unequal.
  The rules of this repository compare a field with \<^verbatim>\<open>request.auth.uid\<close>, with a
  path variable, with a string literal or with \<^verbatim>\<open>null\<close> only.
\<close>

definition eq_r :: "val option \<Rightarrow> val option \<Rightarrow> bool option" where
  "eq_r a b =
     (case a of None \<Rightarrow> None
      | Some x \<Rightarrow> (case b of None \<Rightarrow> None | Some y \<Rightarrow> Some (x = y)))"

definition neq_r :: "val option \<Rightarrow> val option \<Rightarrow> bool option" where
  "neq_r a b = not_r (eq_r a b)"

text \<open>\<^verbatim>\<open>m.f\<close>: the field \<open>f\<close> of the map \<open>m\<close>.\<close>

definition fld :: "val option \<Rightarrow> string \<Rightarrow> val option" where
  "fld m f =
     (case m of
        Some (VMap kvs) \<Rightarrow> map_of kvs f
      | _ \<Rightarrow> None)"

text \<open>\<^verbatim>\<open>x in c\<close>: membership in a list, or being a key of a map.\<close>

definition in_r :: "val option \<Rightarrow> val option \<Rightarrow> bool option" where
  "in_r x c =
     (case x of None \<Rightarrow> None
      | Some v \<Rightarrow>
         (case c of
            Some (VList vs) \<Rightarrow> Some (v \<in> set vs)
          | Some (VMap kvs) \<Rightarrow>
              (case v of VStr k \<Rightarrow> Some (k \<in> set (map fst kvs)) | _ \<Rightarrow> None)
          | _ \<Rightarrow> None))"

text \<open>\<^verbatim>\<open>m.keys()\<close>, \<^verbatim>\<open>ks.hasAny(xs)\<close>, \<^verbatim>\<open>v.size()\<close> and \<^verbatim>\<open><\<close> on integers.\<close>

definition keys_r :: "val option \<Rightarrow> string list option" where
  "keys_r m = (case m of Some (VMap kvs) \<Rightarrow> Some (map fst kvs) | _ \<Rightarrow> None)"

definition hasAny_r :: "string list option \<Rightarrow> string list \<Rightarrow> bool option" where
  "hasAny_r ks xs =
     (case ks of None \<Rightarrow> None | Some k \<Rightarrow> Some (list_ex (\<lambda>x. x \<in> set k) xs))"

definition size_r :: "val option \<Rightarrow> int option" where
  "size_r v =
     (case v of
        Some (VStr s) \<Rightarrow> Some (int (length s))
      | Some (VBytes bs) \<Rightarrow> Some (int (length bs))
      | Some (VList vs) \<Rightarrow> Some (int (length vs))
      | Some (VMap kvs) \<Rightarrow> Some (int (length (remdups (map fst kvs))))
      | _ \<Rightarrow> None)"

definition lt_r :: "int option \<Rightarrow> int option \<Rightarrow> bool option" where
  "lt_r a b =
     (case a of None \<Rightarrow> None
      | Some x \<Rightarrow> (case b of None \<Rightarrow> None | Some y \<Rightarrow> Some (x < y)))"

text \<open>The ambient names of a condition.\<close>

definition auth_nn :: "ctx \<Rightarrow> bool option" where
  \<comment> \<open>\<^verbatim>\<open>request.auth != null\<close>\<close>
  "auth_nn c = Some (auth c \<noteq> None)"

definition uid :: "ctx \<Rightarrow> val option" where
  \<comment> \<open>\<^verbatim>\<open>request.auth.uid\<close>\<close>
  "uid c = (case auth c of None \<Rightarrow> None | Some u \<Rightarrow> Some (VStr u))"

definition get_data :: "ctx \<Rightarrow> docpath option \<Rightarrow> val option" where
  \<comment> \<open>\<^verbatim>\<open>get(p).data\<close>; the path itself may fail to build\<close>
  "get_data c p =
     (case p of None \<Rightarrow> None
      | Some q \<Rightarrow> (case db c q of None \<Rightarrow> None | Some d \<Rightarrow> Some (VMap d)))"

definition exists_doc :: "ctx \<Rightarrow> docpath option \<Rightarrow> bool option" where
  \<comment> \<open>\<^verbatim>\<open>exists(p)\<close>\<close>
  "exists_doc c p = (case p of None \<Rightarrow> None | Some q \<Rightarrow> Some (db c q \<noteq> None))"

definition resource_data :: "ctx \<Rightarrow> val option" where
  \<comment> \<open>\<^verbatim>\<open>resource.data\<close>\<close>
  "resource_data c = get_data c (Some (path c))"

definition request_resource_data :: "ctx \<Rightarrow> val option" where
  \<comment> \<open>\<^verbatim>\<open>request.resource.data\<close>\<close>
  "request_resource_data c = (case incoming c of None \<Rightarrow> None | Some d \<Rightarrow> Some (VMap d))"

definition str :: "string \<Rightarrow> val option" where
  "str s = Some (VStr s)"

definition class_path :: "string \<Rightarrow> docpath option" where
  \<comment> \<open>\<^verbatim>\<open>/databases/$(database)/documents/classes/$(classId)\<close>\<close>
  "class_path classId = Some [''classes'', classId]"

definition member_path :: "ctx \<Rightarrow> string \<Rightarrow> docpath option" where
  \<comment> \<open>\<^verbatim>\<open>.../classes/$(classId)/members/$(request.auth.uid)\<close>\<close>
  "member_path c classId =
     (case auth c of None \<Rightarrow> None | Some u \<Rightarrow> Some [''classes'', classId, ''members'', u])"

definition subject_path :: "string \<Rightarrow> string \<Rightarrow> docpath option" where
  \<comment> \<open>\<^verbatim>\<open>.../classes/$(classId)/subjects/$(subjectId)\<close>\<close>
  "subject_path classId subjectId = Some [''classes'', classId, ''subjects'', subjectId]"

definition class_createdBy :: "ctx \<Rightarrow> string \<Rightarrow> val option" where
  \<comment> \<open>\<^verbatim>\<open>get(.../classes/$(classId)).data.createdBy\<close>\<close>
  "class_createdBy c classId = fld (get_data c (class_path classId)) ''createdBy''"

section \<open>Allow statements and decisions\<close>

type_synonym stmt = "operation list \<times> bool option"

definition write_ops :: "operation list" where
  \<comment> \<open>\<^verbatim>\<open>allow write\<close> stands for create, update and delete\<close>
  "write_ops = [Create, Update, Delete]"

text \<open>A block grants an operation when one of its statements for that operation is true.\<close>

primrec grants :: "stmt list \<Rightarrow> operation \<Rightarrow> bool" where
  "grants [] m = False"
| "grants (s # ss) m = ((m \<in> set (fst s) \<and> snd s = Some True) \<or> grants ss m)"

section \<open>The current rules\<close>

subsection \<open>Helper functions of \<^verbatim>\<open>match /classes/{classId}\<close>\<close>

definition isAdmin :: "ctx \<Rightarrow> string \<Rightarrow> bool option" where
  "isAdmin c classId =
     or_r (eq_r (uid c) (fld (resource_data c) ''createdBy''))
          (and_r (exists_doc c (member_path c classId))
                 (or_r (eq_r (fld (get_data c (member_path c classId)) ''role'') (str ''admin''))
                       (eq_r (fld (get_data c (member_path c classId)) ''role'') (str ''teacher''))))"

definition isTeacher :: "ctx \<Rightarrow> string \<Rightarrow> bool option" where
  "isTeacher c classId =
     and_r (exists_doc c (member_path c classId))
           (eq_r (fld (get_data c (member_path c classId)) ''role'') (str ''teacher''))"

definition isTeacherForSubject :: "ctx \<Rightarrow> string \<Rightarrow> string \<Rightarrow> bool option" where
  "isTeacherForSubject c classId subjectId =
     and_r (and_r (and_r
       (exists_doc c (subject_path classId subjectId))
       (isTeacher c classId))
       (neq_r (fld (get_data c (subject_path classId subjectId)) ''teachers'') (Some VNull)))
       (in_r (uid c) (fld (get_data c (subject_path classId subjectId)) ''teachers''))"

subsection \<open>The \<^verbatim>\<open>match\<close> blocks\<close>

definition classes_block :: "ctx \<Rightarrow> string \<Rightarrow> stmt list" where
  "classes_block c classId =
     [([Read], auth_nn c),
      ([Create], auth_nn c),
      ([Update, Delete],
         and_r (auth_nn c) (eq_r (uid c) (fld (resource_data c) ''createdBy'')))]"

definition members_block :: "ctx \<Rightarrow> string \<Rightarrow> string \<Rightarrow> stmt list" where
  "members_block c classId memberId =
     [([Read], auth_nn c),
      ([Create],
         and_r (auth_nn c)
           (or_r (eq_r (uid c) (class_createdBy c classId))
                 (eq_r (uid c) (fld (request_resource_data c) ''userId'')))),
      ([Update, Delete],
         and_r (auth_nn c)
           (or_r (eq_r (uid c) (class_createdBy c classId))
                 (eq_r (uid c) (fld (resource_data c) ''userId''))))]"

definition aiMaterials_block :: "ctx \<Rightarrow> string \<Rightarrow> string \<Rightarrow> stmt list" where
  "aiMaterials_block c classId materialId =
     [([Read], auth_nn c),
      ([Create], auth_nn c),
      ([Update], auth_nn c),
      ([Delete],
         and_r (auth_nn c)
           (or_r (eq_r (uid c) (fld (fld (resource_data c) ''createdBy'') ''uid''))
                 (eq_r (uid c) (class_createdBy c classId))))]"

definition assignments_block :: "ctx \<Rightarrow> string \<Rightarrow> string \<Rightarrow> stmt list" where
  "assignments_block c classId assignmentId =
     [([Read], auth_nn c),
      ([Create], auth_nn c),
      ([Update, Delete],
         and_r (auth_nn c)
           (or_r (eq_r (uid c) (fld (resource_data c) ''createdBy''))
                 (eq_r (uid c) (class_createdBy c classId))))]"

definition comments_block :: "ctx \<Rightarrow> string \<Rightarrow> string \<Rightarrow> string \<Rightarrow> stmt list" where
  "comments_block c classId assignmentId commentId =
     [([Read], auth_nn c),
      ([Create], auth_nn c),
      ([Update, Delete],
         and_r (auth_nn c) (eq_r (uid c) (fld (resource_data c) ''userId''))),
      ([Delete],
         and_r (auth_nn c) (eq_r (uid c) (class_createdBy c classId)))]"

definition completionApprovals_block :: "ctx \<Rightarrow> string \<Rightarrow> string \<Rightarrow> stmt list" where
  "completionApprovals_block c classId approvalId =
     [([Read], auth_nn c),
      ([Create],
         and_r (auth_nn c) (eq_r (uid c) (fld (request_resource_data c) ''userId''))),
      ([Update, Delete],
         and_r (auth_nn c)
           (or_r (or_r (or_r (or_r (or_r
              (eq_r (uid c) (class_createdBy c classId))
              (isAdmin c classId))
              (isTeacher c classId))
              (and_r (neq_r (fld (resource_data c) ''subjectTeachers'') (Some VNull))
                     (in_r (uid c) (fld (resource_data c) ''subjectTeachers''))))
              (and_r (neq_r (fld (resource_data c) ''approvedBy'') (Some VNull))
                     (eq_r (uid c) (fld (resource_data c) ''approvedBy''))))
              (and_r (neq_r (fld (resource_data c) ''gradedBy'') (Some VNull))
                     (eq_r (uid c) (fld (resource_data c) ''gradedBy'')))))]"

definition subjects_block :: "ctx \<Rightarrow> string \<Rightarrow> string \<Rightarrow> stmt list" where
  "subjects_block c classId subjectId =
     [([Read], auth_nn c),
      ([Create], auth_nn c),
      ([Update],
         and_r (auth_nn c)
           (or_r (or_r
              (eq_r (uid c) (fld (resource_data c) ''createdBy''))
              (eq_r (uid c) (class_createdBy c classId)))
              (isTeacherForSubject c classId subjectId))),
      ([Delete],
         and_r (auth_nn c)
           (or_r (eq_r (uid c) (fld (resource_data c) ''createdBy''))
                 (eq_r (uid c) (class_createdBy c classId))))]"

definition experience_block :: "ctx \<Rightarrow> string \<Rightarrow> string \<Rightarrow> stmt list" where
  "experience_block c classId userId =
     [([Read], auth_nn c),
      ([Create, Update], and_r (auth_nn c) (eq_r (uid c) (str userId))),
      ([Create, Update], and_r (auth_nn c) (eq_r (uid c) (class_createdBy c classId)))]"

text \<open>
  \<^verbatim>\<open>gallery\<close>, \<^verbatim>\<open>albums\<close> and \<^verbatim>\<open>featuredImages\<close> carry the same three statements.
\<close>

definition gallery_block :: "ctx \<Rightarrow> string \<Rightarrow> string \<Rightarrow> stmt list" where
  "gallery_block c classId imageId =
     [([Read], auth_nn c),
      ([Create, Update, Delete],
         and_r (auth_nn c)
           (or_r (or_r
              (eq_r (uid c) (fld (resource_data c) ''createdBy''))
              (eq_r (uid c) (class_createdBy c classId)))
              (isAdmin c classId)))]"

definition albums_block :: "ctx \<Rightarrow> string \<Rightarrow> string \<Rightarrow> stmt list" where
  "albums_block c classId albumId =
     [([Read], auth_nn c),
      ([Create, Update, Delete],
         and_r (auth_nn c)
           (or_r (or_r
              (eq_r (uid c) (fld (resource_data c) ''createdBy''))
              (eq_r (uid c) (class_createdBy c classId)))
              (isAdmin c classId)))]"

definition featuredImages_block :: "ctx \<Rightarrow> string \<Rightarrow> string \<Rightarrow> stmt list" where
  "featuredImages_block c classId imageId =
     [([Read], auth_nn c),
      ([Create, Update, Delete],
         and_r (auth_nn c)
           (or_r (or_r
              (eq_r (uid c) (fld (resource_data c) ''createdBy''))
              (eq_r (uid c) (class_createdBy c classId)))
              (isAdmin c classId)))]"

definition galleryApprovals_block :: "ctx \<Rightarrow> string \<Rightarrow> string \<Rightarrow> stmt list" where
  "galleryApprovals_block c classId approvalId =
     [([Read], auth_nn c),
      ([Create],
         and_r (auth_nn c) (eq_r (uid c) (fld (request_resource_data c) ''createdBy''))),
      ([Update, Delete],
         and_r (auth_nn c)
           (or_r (eq_r (uid c) (class_createdBy c classId))
                 (isAdmin c classId)))]"

definition photo_ok :: "ctx \<Rightarrow> bool option" where
  \<comment> \<open>the size test of \<^verbatim>\<open>match /users/{userId}\<close>\<close>
  "photo_ok c =
     or_r (not_r (hasAny_r (keys_r (request_resource_data c)) [''photoBase64'']))
          (and_r (hasAny_r (keys_r (request_resource_data c)) [''photoBase64''])
                 (lt_r (size_r (fld (request_resource_data c) ''photoBase64'')) (Some 1048576)))"

definition users_block :: "ctx \<Rightarrow> string \<Rightarrow> stmt list" where
  "users_block c userId =
     [([Read], auth_nn c),
      (write_ops, and_r (auth_nn c) (eq_r (uid c) (str userId))),
      ([Update],
         and_r (and_r (auth_nn c) (eq_r (uid c) (str userId))) (photo_ok c))]"

definition completedAssignments_block :: "ctx \<Rightarrow> string \<Rightarrow> string \<Rightarrow> stmt list" where
  "completedAssignments_block c userId completionId =
     [([Read], and_r (auth_nn c) (eq_r (uid c) (str userId))),
      ([Create], auth_nn c),
      ([Update],
         and_r (auth_nn c)
           (or_r (or_r
              (eq_r (uid c) (fld (resource_data c) ''approvedBy''))
              (eq_r (uid c) (fld (resource_data c) ''teacherId'')))
              (eq_r (uid c) (fld (resource_data c) ''gradedBy''))))]"

subsection \<open>Matching a path\<close>

text \<open>
  A block applies to the documents of its own collection only; nothing is inherited
  from an enclosing block, and a path that no block matches has no statement at all.
\<close>

definition class_sub_current :: "ctx \<Rightarrow> string \<Rightarrow> string \<Rightarrow> string \<Rightarrow> stmt list" where
  "class_sub_current c classId coll docId =
     (if coll = ''members'' then members_block c classId docId
      else if coll = ''aiMaterials'' then aiMaterials_block c classId docId
      else if coll = ''assignments'' then assignments_block c classId docId
      else if coll = ''completionApprovals'' then completionApprovals_block c classId docId
      else if coll = ''subjects'' then subjects_block c classId docId
      else if coll = ''experience'' then experience_block c classId docId
      else if coll = ''gallery'' then gallery_block c classId docId
      else if coll = ''albums'' then albums_block c classId docId
      else if coll = ''featuredImages'' then featuredImages_block c classId docId
      else if coll = ''galleryApprovals'' then galleryApprovals_block c classId docId
      else [])"

fun rules_current :: "ctx \<Rightarrow> docpath \<Rightarrow> stmt list" where
  "rules_current c [root, x] =
     (if root = ''classes'' then classes_block c x
      else if root = ''users'' then users_block c x
      else [])"
| "rules_current c [root, x, coll, y] =
     (if root = ''classes'' then class_sub_current c x coll y
      else if root = ''users'' \<and> coll = ''completedAssignments''
        then completedAssignments_block c x y
      else [])"
| "rules_current c [root, x, coll, y, coll2, z] =
     (if root = ''classes'' \<and> coll = ''assignments'' \<and> coll2 = ''comments''
        then comments_block c x y z
      else [])"
| "rules_current c p = []"

definition decide_current :: "ctx \<Rightarrow> operation \<Rightarrow> decision" where
  "decide_current c m = (if grants (rules_current c (path c)) m then Allow else Deny)"

section \<open>The legacy rules\<close>

text \<open>
  The older rule file has the blocks \<^verbatim>\<open>classes\<close>, \<^verbatim>\<open>members\<close>, \<^verbatim>\<open>assignments\<close>,
  \<^verbatim>\<open>comments\<close>, \<^verbatim>\<open>experience\<close> and \<^verbatim>\<open>users\<close> word for word as above. It has its
  own \<^verbatim>\<open>isAdmin\<close>, no \<^verbatim>\<open>isTeacher\<close> and no \<^verbatim>\<open>isTeacherForSubject\<close>, no
  \<^verbatim>\<open>completedAssignments\<close> block, and a root-level \<^verbatim>\<open>aiMaterials\<close> collection.
\<close>

definition isAdmin_legacy :: "ctx \<Rightarrow> string \<Rightarrow> bool option" where
  "isAdmin_legacy c classId =
     or_r (eq_r (uid c) (fld (resource_data c) ''createdBy''))
          (and_r (exists_doc c (member_path c classId))
                 (eq_r (fld (get_data c (member_path c classId)) ''role'') (str ''admin'')))"

definition aiMaterials_block_legacy :: "ctx \<Rightarrow> string \<Rightarrow> string \<Rightarrow> stmt list" where
  "aiMaterials_block_legacy c classId materialId =
     [([Read], auth_nn c),
      ([Create], auth_nn c),
      ([Update, Delete],
         and_r (auth_nn c)
           (or_r (eq_r (uid c) (fld (fld (resource_data c) ''createdBy'') ''uid''))
                 (eq_r (uid c) (class_createdBy c classId))))]"

definition completionApprovals_block_legacy :: "ctx \<Rightarrow> string \<Rightarrow> string \<Rightarrow> stmt list" where
  "completionApprovals_block_legacy c classId approvalId =
     [([Read], auth_nn c),
      ([Create],
         and_r (auth_nn c) (eq_r (uid c) (fld (request_resource_data c) ''userId''))),
      ([Update, Delete],
         and_r (auth_nn c) (eq_r (uid c) (class_createdBy c classId)))]"

definition subjects_block_legacy :: "ctx \<Rightarrow> string \<Rightarrow> string \<Rightarrow> stmt list" where
  "subjects_block_legacy c classId subjectId =
     [([Read], auth_nn c),
      ([Create], auth_nn c),
      ([Update, Delete],
         and_r (auth_nn c)
           (or_r (eq_r (uid c) (fld (resource_data c) ''createdBy''))
                 (eq_r (uid c) (class_createdBy c classId))))]"

definition gallery_block_legacy :: "ctx \<Rightarrow> string \<Rightarrow> string \<Rightarrow> stmt list" where
  "gallery_block_legacy c classId imageId =
     [([Read], auth_nn c),
      ([Create, Update, Delete],
         and_r (auth_nn c)
           (or_r (or_r
              (eq_r (uid c) (fld (resource_data c) ''createdBy''))
              (eq_r (uid c) (class_createdBy c classId)))
              (isAdmin_legacy c classId)))]"

definition albums_block_legacy :: "ctx \<Rightarrow> string \<Rightarrow> string \<Rightarrow> stmt list" where
  "albums_block_legacy c classId albumId =
     [([Read], auth_nn c),
      ([Create, Update, Delete],
         and_r (auth_nn c)
           (or_r (or_r
              (eq_r (uid c) (fld (resource_data c) ''createdBy''))
              (eq_r (uid c) (class_createdBy c classId)))
              (isAdmin_legacy c classId)))]"

definition featuredImages_block_legacy :: "ctx \<Rightarrow> string \<Rightarrow> string \<Rightarrow> stmt list" where
  "featuredImages_block_legacy c classId imageId =
     [([Read], auth_nn c),
      ([Create, Update, Delete],
         and_r (auth_nn c)
           (or_r (or_r
              (eq_r (uid c) (fld (resource_data c) ''createdBy''))
              (eq_r (uid c) (class_createdBy c classId)))
              (isAdmin_legacy c classId)))]"

definition galleryApprovals_block_legacy :: "ctx \<Rightarrow> string \<Rightarrow> string \<Rightarrow> stmt list" where
  "galleryApprovals_block_legacy c classId approvalId =
     [([Read], auth_nn c),
      ([Create],
         and_r (auth_nn c) (eq_r (uid c) (fld (request_resource_data c) ''createdBy''))),
      ([Update, Delete],
         and_r (auth_nn c)
           (or_r (eq_r (uid c) (class_createdBy c classId))
                 (isAdmin_legacy c classId)))]"

definition class_path_of :: "val option \<Rightarrow> docpath option" where
  \<comment> \<open>\<^verbatim>\<open>.../classes/$(resource.data.classId)\<close>: the field has to be a string\<close>
  "class_path_of v = (case v of Some (VStr s) \<Rightarrow> Some [''classes'', s] | _ \<Rightarrow> None)"

definition root_aiMaterials_block :: "ctx \<Rightarrow> string \<Rightarrow> stmt list" where
  "root_aiMaterials_block c materialId =
     [([Read], auth_nn c),
      ([Create], auth_nn c),
      ([Update, Delete],
         and_r (auth_nn c)
           (eq_r (uid c) (fld (fld (resource_data c) ''createdBy'') ''uid''))),
      ([Update, Delete],
         and_r (auth_nn c)
           (eq_r (uid c)
              (fld (get_data c (class_path_of (fld (resource_data c) ''classId'')))
                   ''createdBy'')))]"

definition class_sub_legacy :: "ctx \<Rightarrow> string \<Rightarrow> string \<Rightarrow> string \<Rightarrow> stmt list" where
  "class_sub_legacy c classId coll docId =
     (if coll = ''members'' then members_block c classId docId
      else if coll = ''aiMaterials'' then aiMaterials_block_legacy c classId docId
      else if coll = ''assignments'' then assignments_block c classId docId
      else if coll = ''completionApprovals''
        then completionApprovals_block_legacy c classId docId
      else if coll = ''subjects'' then subjects_block_legacy c classId docId
      else if coll = ''experience'' then experience_block c classId docId
      else if coll = ''gallery'' then gallery_block_legacy c classId docId
      else if coll = ''albums'' then albums_block_legacy c classId docId
      else if coll = ''featuredImages'' then featuredImages_block_legacy c classId docId
      else if coll = ''galleryApprovals'' then galleryApprovals_block_legacy c classId docId
      else [])"

fun rules_legacy :: "ctx \<Rightarrow> docpath \<Rightarrow> stmt list" where
  "rules_legacy c [root, x] =
     (if root = ''classes'' then classes_block c x
      else if root = ''users'' then users_block c x
      else if root = ''aiMaterials'' then root_aiMaterials_block c x
      else [])"
| "rules_legacy c [root, x, coll, y] =
     (if root = ''classes'' then class_sub_legacy c x coll y else [])"
| "rules_legacy c [root, x, coll, y, coll2, z] =
     (if root = ''classes'' \<and> coll = ''assignments'' \<and> coll2 = ''comments''
        then comments_block c x y z
      else [])"
| "rules_legacy c p = []"

definition decide_legacy :: "ctx \<Rightarrow> operation \<Rightarrow> decision" where
  "decide_legacy c m = (if grants (rules_legacy c (path c)) m then Allow else Deny)"

section \<open>Vocabulary of the statements\<close>

text \<open>
  The statements below speak about the stored data directly: \<open>field_is c p f u\<close> says
  that the document at \<open>p\<close> exists and that its field \<open>f\<close> is the string \<open>u\<close>;
  \<open>listed_in c p f u\<close> that the field \<open>f\<close> of the document at \<open>p\<close> is a list holding
  the string \<open>u\<close> (or a map with the key \<open>u\<close>).
\<close>

definition field_is :: "ctx \<Rightarrow> docpath \<Rightarrow> string \<Rightarrow> string \<Rightarrow> bool" where
  "field_is c p f u =
     (case db c p of None \<Rightarrow> False | Some d \<Rightarrow> map_of d f = Some (VStr u))"

definition listed_in :: "ctx \<Rightarrow> docpath \<Rightarrow> string \<Rightarrow> string \<Rightarrow> bool" where
  "listed_in c p f u =
     (case db c p of None \<Rightarrow> False
      | Some d \<Rightarrow>
         (case map_of d f of
            Some (VList vs) \<Rightarrow> VStr u \<in> set vs
          | Some (VMap kvs) \<Rightarrow> u \<in> set (map fst kvs)
          | _ \<Rightarrow> False))"

text \<open>The collections below \<^verbatim>\<open>classes/{classId}\<close>, and the class documents themselves.\<close>

definition class_collections :: "string list" where
  "class_collections =
     [''members'', ''aiMaterials'', ''assignments'', ''completionApprovals'',
      ''subjects'', ''experience'', ''gallery'', ''albums'',
      ''featuredImages'', ''galleryApprovals'']"

fun class_scoped :: "docpath \<Rightarrow> bool" where
  "class_scoped [root, x] = (root = ''classes'')"
| "class_scoped [root, x, coll, y] = (root = ''classes'' \<and> coll \<in> set class_collections)"
| "class_scoped [root, x, coll, y, coll2, z] =
     (root = ''classes'' \<and> coll = ''assignments'' \<and> coll2 = ''comments'')"
| "class_scoped p = False"

text \<open>
  A small snapshot for the concrete instances: class \<open>c1\<close> was created by alice, bob is
  an admin member, carol and frank are teacher members, dave is a plain member.
\<close>

definition demo_db :: store where
  "demo_db p =
     (if p = [''classes'', ''c1''] then Some [(''createdBy'', VStr ''alice'')]
      else if p = [''classes'', ''c1'', ''members'', ''bob'']
        then Some [(''userId'', VStr ''bob''), (''role'', VStr ''admin'')]
      else if p = [''classes'', ''c1'', ''members'', ''carol'']
        then Some [(''userId'', VStr ''carol''), (''role'', VStr ''teacher'')]
      else if p = [''classes'', ''c1'', ''members'', ''frank'']
        then Some [(''userId'', VStr ''frank''), (''role'', VStr ''teacher'')]
      else if p = [''classes'', ''c1'', ''members'', ''dave'']
        then Some [(''userId'', VStr ''dave''), (''role'', VStr ''member'')]
      else if p = [''classes'', ''c1'', ''subjects'', ''s1'']
        then Some [(''createdBy'', VStr ''bob''), (''teachers'', VList [VStr ''carol''])]
      else if p = [''classes'', ''c1'', ''assignments'', ''a1'']
        then Some [(''createdBy'', VStr ''bob'')]
      else if p = [''classes'', ''c1'', ''assignments'', ''a1'', ''comments'', ''k1'']
        then Some [(''userId'', VStr ''dave'')]
      else if p = [''classes'', ''c1'', ''completionApprovals'', ''p1'']
        then Some [(''userId'', VStr ''erin''), (''status'', VStr ''pending''),
                   (''subjectTeachers'', VList []), (''approvedBy'', VNull),
                   (''gradedBy'', VStr ''dave'')]
      else if p = [''classes'', ''c1'', ''gallery'', ''g1'']
        then Some [(''createdBy'', VStr ''carol'')]
      else if p = [''users'', ''alice''] then Some [(''name'', VStr ''Alice'')]
      else if p = [''classes'', ''c1'', ''completionApprovals'', ''p2'']
        then Some [(''userId'', VStr ''erin''), (''createdBy'', VStr ''erin''),
                   (''status'', VStr ''pending''), (''subjectTeachers'', VList []),
                   (''approvedBy'', VNull), (''gradedBy'', VNull)]
      else None)"

definition demo :: "string option \<Rightarrow> docpath \<Rightarrow> doc option \<Rightarrow> ctx" where
  "demo a p d = \<lparr>db = demo_db, auth = a, path = p, incoming = d\<rparr>"



text \<open>A profile update carrying a two-mebibyte \<^verbatim>\<open>photoBase64\<close> string.\<close>

definition big_photo :: doc where
  "big_photo = [(''photoBase64'', VStr (replicate 2097152 CHR ''A''))]"

section \<open>Facts about the evaluation\<close>

text \<open>
  When the left operand does not fail, \<^verbatim>\<open>&&\<close> and \<^verbatim>\<open>||\<close> give what left-to-right
  short-circuit evaluation gives.
\<close>

lemma and_r_left_decides:
  "and_r (Some False) b = Some False" "and_r (Some True) b = b"
  by (cases b; simp add: and_r_def)+

lemma or_r_left_decides:
  "or_r (Some True) b = Some True" "or_r (Some False) b = b"
  by (cases b; simp add: or_r_def)+

lemma and_r_true [simp]: "and_r a b = Some True \<longleftrightarrow> a = Some True \<and> b = Some True"
  by (cases a; cases b) (auto simp: and_r_def)

lemma or_r_true [simp]: "or_r a b = Some True \<longleftrightarrow> a = Some True \<or> b = Some True"
  by (cases a; cases b) (auto simp: or_r_def)

lemma eq_r_true: "eq_r a b = Some True \<longleftrightarrow> (\<exists>v. a = Some v \<and> b = Some v)"
  by (cases a; cases b) (auto simp: eq_r_def)

lemma neq_null_true:
  "neq_r a (Some VNull) = Some True \<longleftrightarrow> (\<exists>v. a = Some v \<and> v \<noteq> VNull)"
  by (cases a) (auto simp: neq_r_def not_r_def eq_r_def)

lemma grants_single [simp]: "grants [s] m \<longleftrightarrow> m \<in> set (fst s) \<and> snd s = Some True"
  by simp

lemma auth_nn_true [simp]: "auth_nn c = Some True \<longleftrightarrow> auth c \<noteq> None"
  by (simp add: auth_nn_def)

lemma uid_eq: "uid c = Some v \<longleftrightarrow> (\<exists>u. auth c = Some u \<and> v = VStr u)"
  by (auto simp: uid_def split: option.splits)

lemma field_is_iff:
  "field_is c p f u \<longleftrightarrow> (\<exists>d. db c p = Some d \<and> map_of d f = Some (VStr u))"
  by (simp add: field_is_def split: option.splits)

lemma fld_get_data:
  "fld (get_data c (Some p)) f = Some v \<longleftrightarrow> (\<exists>d. db c p = Some d \<and> map_of d f = Some v)"
  by (simp add: fld_def get_data_def split: option.splits)

lemma uid_is_resource_field [simp]:
  "eq_r (uid c) (fld (resource_data c) f) = Some True \<longleftrightarrow>
     (\<exists>u. auth c = Some u \<and> field_is c (path c) f u)"
  by (auto simp: resource_data_def fld_get_data field_is_iff eq_r_true uid_eq)

lemma uid_is_class_creator [simp]:
  "eq_r (uid c) (class_createdBy c classId) = Some True \<longleftrightarrow>
     (\<exists>u. auth c = Some u \<and> field_is c [''classes'', classId] ''createdBy'' u)"
  by (auto simp: class_createdBy_def class_path_def fld_get_data field_is_iff eq_r_true uid_eq)

lemma fld_is_str:
  "eq_r (fld (get_data c (Some p)) f) (str r) = Some True \<longleftrightarrow> field_is c p f r"
  by (auto simp: str_def eq_r_true fld_get_data field_is_iff)

lemma resource_fld:
  "fld (resource_data c) f = Some v \<longleftrightarrow>
     (\<exists>d. db c (path c) = Some d \<and> map_of d f = Some v)"
  by (simp add: resource_data_def fld_get_data)

lemma in_r_true:
  "in_r (Some (VStr u)) (fld (get_data c (Some p)) f) = Some True \<longleftrightarrow> listed_in c p f u"
  by (auto simp: in_r_def fld_def get_data_def listed_in_def split: option.splits val.splits)

lemma resource_lists_uid:
  "auth c = Some u \<Longrightarrow>
   and_r (neq_r (fld (resource_data c) f) (Some VNull))
         (in_r (uid c) (fld (resource_data c) f)) = Some True \<longleftrightarrow> listed_in c (path c) f u"
  by (auto simp: resource_data_def uid_def in_r_true neq_null_true fld_get_data listed_in_def
           split: option.splits)

lemma resource_names_uid:
  "auth c = Some u \<Longrightarrow>
   and_r (neq_r (fld (resource_data c) f) (Some VNull))
         (eq_r (uid c) (fld (resource_data c) f)) = Some True \<longleftrightarrow> field_is c (path c) f u"
  by (auto simp: neq_null_true field_is_iff resource_fld)

text \<open>When the helper functions are true, in terms of the stored documents.\<close>

lemma isTeacher_true:
  "auth c = Some u \<Longrightarrow>
   isTeacher c classId = Some True \<longleftrightarrow>
     field_is c [''classes'', classId, ''members'', u] ''role'' ''teacher''"
  by (auto simp: isTeacher_def member_path_def fld_is_str exists_doc_def field_is_iff)

lemma isAdmin_true:
  "auth c = Some u \<Longrightarrow>
   isAdmin c classId = Some True \<longleftrightarrow>
     field_is c (path c) ''createdBy'' u
     \<or> field_is c [''classes'', classId, ''members'', u] ''role'' ''admin''
     \<or> field_is c [''classes'', classId, ''members'', u] ''role'' ''teacher''"
  by (auto simp: isAdmin_def member_path_def fld_is_str exists_doc_def field_is_iff)

lemma isAdmin_legacy_true:
  "auth c = Some u \<Longrightarrow>
   isAdmin_legacy c classId = Some True \<longleftrightarrow>
     field_is c (path c) ''createdBy'' u
     \<or> field_is c [''classes'', classId, ''members'', u] ''role'' ''admin''"
  by (auto simp: isAdmin_legacy_def member_path_def fld_is_str exists_doc_def field_is_iff)

lemma isTeacherForSubject_true:
  "auth c = Some u \<Longrightarrow>
   isTeacherForSubject c classId subjectId = Some True \<longleftrightarrow>
     field_is c [''classes'', classId, ''members'', u] ''role'' ''teacher''
     \<and> listed_in c [''classes'', classId, ''subjects'', subjectId] ''teachers'' u"
  by (auto simp: isTeacherForSubject_def isTeacher_true subject_path_def uid_def in_r_true
        exists_doc_def neq_null_true fld_get_data listed_in_def split: option.splits)

lemma demo_sel [simp]:
  "db (demo a p d) = demo_db" "auth (demo a p d) = a"
  "path (demo a p d) = p" "incoming (demo a p d) = d"
  by (simp_all add: demo_def)

lemma demo_class: "demo_db [''classes'', ''c1''] = Some [(''createdBy'', VStr ''alice'')]"
  by (simp add: demo_db_def)

lemma demo_comment:
  "demo_db [''classes'', ''c1'', ''assignments'', ''a1'', ''comments'', ''k1'']
     = Some [(''userId'', VStr ''dave'')]"
  by (simp add: demo_db_def)

lemma demo_approval:
  "demo_db [''classes'', ''c1'', ''completionApprovals'', ''p1'']
     = Some [(''userId'', VStr ''erin''), (''status'', VStr ''pending''),
             (''subjectTeachers'', VList []), (''approvedBy'', VNull),
             (''gradedBy'', VStr ''dave'')]"
  by (simp add: demo_db_def)

lemma demo_subject:
  "demo_db [''classes'', ''c1'', ''subjects'', ''s1'']
     = Some [(''createdBy'', VStr ''bob''), (''teachers'', VList [VStr ''carol''])]"
  by (simp add: demo_db_def)

lemma demo_gallery:
  "demo_db [''classes'', ''c1'', ''gallery'', ''g1''] = Some [(''createdBy'', VStr ''carol'')]"
  by (simp add: demo_db_def)

lemma demo_member_carol:
  "demo_db [''classes'', ''c1'', ''members'', ''carol'']
     = Some [(''userId'', VStr ''carol''), (''role'', VStr ''teacher'')]"
  by (simp add: demo_db_def)

lemma demo_member_frank:
  "demo_db [''classes'', ''c1'', ''members'', ''frank'']
     = Some [(''userId'', VStr ''frank''), (''role'', VStr ''teacher'')]"
  by (simp add: demo_db_def)

lemma demo_member_dave:
  "demo_db [''classes'', ''c1'', ''members'', ''dave'']
     = Some [(''userId'', VStr ''dave''), (''role'', VStr ''member'')]"
  by (simp add: demo_db_def)

lemma demo_member_erin: "demo_db [''classes'', ''c1'', ''members'', ''erin''] = None"
  by (simp add: demo_db_def)

lemma demo_approval_own:
  "demo_db [''classes'', ''c1'', ''completionApprovals'', ''p2'']
     = Some [(''userId'', VStr ''erin''), (''createdBy'', VStr ''erin''),
             (''status'', VStr ''pending''), (''subjectTeachers'', VList []),
             (''approvedBy'', VNull), (''gradedBy'', VNull)]"
  by (simp add: demo_db_def)

lemma demo_subject_missing: "demo_db [''classes'', ''c1'', ''subjects'', ''s9''] = None"
  by (simp add: demo_db_def)

lemmas current_blocks =
  classes_block_def members_block_def aiMaterials_block_def assignments_block_def
  comments_block_def completionApprovals_block_def subjects_block_def experience_block_def
  gallery_block_def albums_block_def featuredImages_block_def galleryApprovals_block_def
  users_block_def completedAssignments_block_def

lemmas legacy_blocks =
  aiMaterials_block_legacy_def completionApprovals_block_legacy_def subjects_block_legacy_def
  gallery_block_legacy_def albums_block_legacy_def featuredImages_block_legacy_def
  galleryApprovals_block_legacy_def root_aiMaterials_block_def

section \<open>Requests without an authenticated actor\<close>

lemma no_auth_class_sub_current:
  "auth c = None \<Longrightarrow> \<not> grants (class_sub_current c x coll y) m"
  by (simp add: class_sub_current_def current_blocks)

lemma no_auth_class_sub_legacy:
  "auth c = None \<Longrightarrow> \<not> grants (class_sub_legacy c x coll y) m"
  by (simp add: class_sub_legacy_def current_blocks legacy_blocks)

lemma no_auth_rules_current: "auth c = None \<Longrightarrow> \<not> grants (rules_current c p) m"
  by (cases "(c, p)" rule: rules_current.cases)
     (simp_all add: no_auth_class_sub_current current_blocks)

lemma no_auth_rules_legacy: "auth c = None \<Longrightarrow> \<not> grants (rules_legacy c p) m"
  by (cases "(c, p)" rule: rules_legacy.cases)
     (simp_all add: no_auth_class_sub_legacy current_blocks legacy_blocks)

text \<open>
  C1. A request whose \<^verbatim>\<open>request.auth\<close> is null is denied, whatever its operation, its
  path, the stored documents and the document it carries, by the current and by the
  legacy rules: every statement of both files starts with \<^verbatim>\<open>request.auth != null\<close>,
  and a path that matches no block has no statement.
\<close>

theorem unauthenticated_denied:
  assumes "auth c = None"
  shows "decide_current c m = Deny \<and> decide_legacy c m = Deny"
  using assms
  by (simp add: decide_current_def decide_legacy_def no_auth_rules_current
        no_auth_rules_legacy)

theorem unauthenticated_denied_witness:
  "decide_current (demo None [''classes'', ''c1'', ''assignments'', ''a1''] None) Read = Deny
   \<and> decide_legacy (demo None [''aiMaterials'', ''m1''] None) Delete = Deny"
  using unauthenticated_denied
          [of "demo None [''classes'', ''c1'', ''assignments'', ''a1''] None" Read]
        unauthenticated_denied [of "demo None [''aiMaterials'', ''m1''] None" Delete]
  by simp

section \<open>Reading below a class\<close>

lemma read_class_sub_current:
  "coll \<in> set class_collections \<Longrightarrow>
   grants (class_sub_current c x coll y) Read \<longleftrightarrow> auth c \<noteq> None"
  by (auto simp: class_collections_def class_sub_current_def current_blocks)

lemma read_class_sub_legacy:
  "coll \<in> set class_collections \<Longrightarrow>
   grants (class_sub_legacy c x coll y) Read \<longleftrightarrow> auth c \<noteq> None"
  by (auto simp: class_collections_def class_sub_legacy_def current_blocks legacy_blocks)

lemma read_class_scoped_current:
  "class_scoped p \<Longrightarrow> grants (rules_current c p) Read \<longleftrightarrow> auth c \<noteq> None"
  by (cases "(c, p)" rule: rules_current.cases)
     (simp_all add: read_class_sub_current classes_block_def comments_block_def)

lemma read_class_scoped_legacy:
  "class_scoped p \<Longrightarrow> grants (rules_legacy c p) Read \<longleftrightarrow> auth c \<noteq> None"
  by (cases "(c, p)" rule: rules_legacy.cases)
     (simp_all add: read_class_sub_legacy classes_block_def comments_block_def)

text \<open>
  C10. A read of a class document or of a document in one of the collections below a
  class (members, aiMaterials, assignments and their comments, completionApprovals,
  subjects, experience, gallery, albums, featuredImages, galleryApprovals) depends on the
  actor only: two requests for the same path by the same actor get the same decision
  whatever the two snapshots of the store and the documents carried, and the decision is
  allow exactly when the actor is authenticated. This holds for both rule generations.
\<close>

theorem class_scoped_read_depends_on_actor_only:
  assumes "class_scoped (path c1)" and "path c2 = path c1" and "auth c2 = auth c1"
  shows "decide_current c1 Read = decide_current c2 Read
       \<and> decide_legacy c1 Read = decide_legacy c2 Read
       \<and> (decide_current c1 Read = Allow \<longleftrightarrow> auth c1 \<noteq> None)
       \<and> (decide_legacy c1 Read = Allow \<longleftrightarrow> auth c1 \<noteq> None)"
  using assms
  by (simp add: decide_current_def decide_legacy_def read_class_scoped_current
        read_class_scoped_legacy)

text \<open>
  Zoe, who appears nowhere in the data, reads a completion approval; the decision is the
  same against the demo snapshot and against an empty store.
\<close>

theorem class_scoped_read_depends_on_actor_only_witness:
  "decide_current
     (demo (Some ''zoe'') [''classes'', ''c1'', ''completionApprovals'', ''p1''] None) Read
     = decide_current \<lparr>db = (\<lambda>p. None), auth = Some ''zoe'',
          path = [''classes'', ''c1'', ''completionApprovals'', ''p1''],
          incoming = Some [(''x'', VInt 1)]\<rparr> Read
   \<and> decide_legacy
     (demo (Some ''zoe'') [''classes'', ''c1'', ''completionApprovals'', ''p1''] None) Read
     = decide_legacy \<lparr>db = (\<lambda>p. None), auth = Some ''zoe'',
          path = [''classes'', ''c1'', ''completionApprovals'', ''p1''],
          incoming = Some [(''x'', VInt 1)]\<rparr> Read
   \<and> decide_current
     (demo (Some ''zoe'') [''classes'', ''c1'', ''completionApprovals'', ''p1''] None) Read
     = Allow"
  using class_scoped_read_depends_on_actor_only
    [of "demo (Some ''zoe'') [''classes'', ''c1'', ''completionApprovals'', ''p1''] None"
        "\<lparr>db = (\<lambda>p. None), auth = Some ''zoe'',
          path = [''classes'', ''c1'', ''completionApprovals'', ''p1''],
          incoming = Some [(''x'', VInt 1)]\<rparr>"]
  by (auto simp: class_collections_def)

section \<open>Creating assignments and subjects\<close>

text \<open>
  C9. Any authenticated actor may create an assignment or a subject in any class, under
  both rule generations: the statement is \<^verbatim>\<open>allow create: if request.auth != null\<close>,
  so neither the store (membership, role, the class itself) nor the created document is
  looked at.
\<close>

theorem create_assignment_or_subject_unconditional:
  assumes "path c = [''classes'', classId, coll, docId]"
      and "coll = ''assignments'' \<or> coll = ''subjects''"
      and "auth c = Some u"
  shows "decide_current c Create = Allow \<and> decide_legacy c Create = Allow"
proof -
  have "grants (class_sub_current c classId coll docId) Create"
    using assms(2,3)
    by (auto simp: class_sub_current_def assignments_block_def subjects_block_def)
  moreover have "grants (class_sub_legacy c classId coll docId) Create"
    using assms(2,3)
    by (auto simp: class_sub_legacy_def assignments_block_def subjects_block_legacy_def)
  ultimately show ?thesis
    using assms(1) by (simp add: decide_current_def decide_legacy_def)
qed

text \<open>Zoe creates a subject that names alice as its creator, in a class that is not stored.\<close>

theorem create_assignment_or_subject_unconditional_witness:
  "decide_current \<lparr>db = (\<lambda>p. None), auth = Some ''zoe'',
       path = [''classes'', ''c9'', ''subjects'', ''s9''],
       incoming = Some [(''createdBy'', VStr ''alice'')]\<rparr> Create = Allow
   \<and> decide_legacy \<lparr>db = (\<lambda>p. None), auth = Some ''zoe'',
       path = [''classes'', ''c9'', ''subjects'', ''s9''],
       incoming = Some [(''createdBy'', VStr ''alice'')]\<rparr> Create = Allow"
  by (rule create_assignment_or_subject_unconditional
             [of _ "''c9''" "''subjects''" "''s9''" "''zoe''"]) simp_all

section \<open>Comments\<close>

lemma comments_delete:
  "grants (comments_block c classId assignmentId commentId) Delete \<longleftrightarrow>
     (\<exists>u. auth c = Some u \<and>
        (field_is c (path c) ''userId'' u
         \<or> field_is c [''classes'', classId] ''createdBy'' u))"
  by (auto simp: comments_block_def)

text \<open>
  C8. A comment of an assignment can be deleted exactly by an authenticated actor who is
  the comment's \<^verbatim>\<open>userId\<close> or the class's \<^verbatim>\<open>createdBy\<close>. The block has two
  statements for delete, \<^verbatim>\<open>allow update, delete\<close> for the author and
  \<^verbatim>\<open>allow delete\<close> for the class creator; either one suffices. Both rule generations
  agree.
\<close>

theorem comment_delete_author_or_class_creator:
  assumes "path c =
             [''classes'', classId, ''assignments'', assignmentId, ''comments'', commentId]"
  shows "(decide_current c Delete = Allow \<longleftrightarrow>
           (\<exists>u. auth c = Some u \<and>
              (field_is c (path c) ''userId'' u
               \<or> field_is c [''classes'', classId] ''createdBy'' u)))
       \<and> (decide_legacy c Delete = Allow \<longleftrightarrow>
           (\<exists>u. auth c = Some u \<and>
              (field_is c (path c) ''userId'' u
               \<or> field_is c [''classes'', classId] ''createdBy'' u)))"
  using comments_delete[of c classId assignmentId commentId]
  by (simp add: decide_current_def decide_legacy_def assms)

text \<open>
  Dave wrote comment \<open>k1\<close> and alice created the class: each may delete it. Bob, an
  admin member who is neither, may not.
\<close>

theorem comment_delete_author_or_class_creator_witness:
  "decide_current (demo (Some ''dave'')
      [''classes'', ''c1'', ''assignments'', ''a1'', ''comments'', ''k1''] None) Delete = Allow
   \<and> decide_current (demo (Some ''alice'')
      [''classes'', ''c1'', ''assignments'', ''a1'', ''comments'', ''k1''] None) Delete = Allow
   \<and> decide_current (demo (Some ''bob'')
      [''classes'', ''c1'', ''assignments'', ''a1'', ''comments'', ''k1''] None) Delete
        \<noteq> Allow"
  using comment_delete_author_or_class_creator
          [of "demo (Some ''dave'')
                [''classes'', ''c1'', ''assignments'', ''a1'', ''comments'', ''k1''] None"
              "''c1''" "''a1''" "''k1''"]
        comment_delete_author_or_class_creator
          [of "demo (Some ''alice'')
                [''classes'', ''c1'', ''assignments'', ''a1'', ''comments'', ''k1''] None"
              "''c1''" "''a1''" "''k1''"]
        comment_delete_author_or_class_creator
          [of "demo (Some ''bob'')
                [''classes'', ''c1'', ''assignments'', ''a1'', ''comments'', ''k1''] None"
              "''c1''" "''a1''" "''k1''"]
  by (simp add: field_is_def demo_comment demo_class)

section \<open>The class document\<close>

lemma classes_update_delete:
  "m = Update \<or> m = Delete \<Longrightarrow>
   grants (classes_block c classId) m \<longleftrightarrow>
     (\<exists>u. auth c = Some u \<and> field_is c (path c) ''createdBy'' u)"
  by (auto simp: classes_block_def)

text \<open>
  C3. A class document can be updated or deleted exactly by the authenticated actor
  whose id is the \<^verbatim>\<open>createdBy\<close> of the stored class document, in both rule
  generations. Nothing else is consulted: a member document of the actor, whatever its
  role, does not change the decision.
\<close>

theorem class_update_delete_creator_only:
  assumes "path c = [''classes'', classId]" and "m = Update \<or> m = Delete"
  shows "(decide_current c m = Allow \<longleftrightarrow>
            (\<exists>u. auth c = Some u \<and> field_is c [''classes'', classId] ''createdBy'' u))
       \<and> (decide_legacy c m = Allow \<longleftrightarrow>
            (\<exists>u. auth c = Some u \<and> field_is c [''classes'', classId] ''createdBy'' u))"
  using assms classes_update_delete[of m c classId]
  by (simp add: decide_current_def decide_legacy_def)

text \<open>Alice, the creator, may delete class \<open>c1\<close>; bob, an admin member, may not.\<close>

theorem class_update_delete_creator_only_witness:
  "decide_current (demo (Some ''alice'') [''classes'', ''c1''] None) Delete = Allow
   \<and> decide_current (demo (Some ''bob'') [''classes'', ''c1''] None) Delete \<noteq> Allow
   \<and> decide_legacy (demo (Some ''bob'') [''classes'', ''c1''] None) Delete \<noteq> Allow"
  using class_update_delete_creator_only
          [of "demo (Some ''alice'') [''classes'', ''c1''] None" "''c1''" Delete]
        class_update_delete_creator_only
          [of "demo (Some ''bob'') [''classes'', ''c1''] None" "''c1''" Delete]
  by (simp add: field_is_def demo_class)

section \<open>Completion approvals\<close>

lemma completionApprovals_update_delete:
  assumes "auth c = Some u" and "m = Update \<or> m = Delete"
  shows "grants (completionApprovals_block c classId approvalId) m \<longleftrightarrow>
     field_is c [''classes'', classId] ''createdBy'' u
     \<or> isAdmin c classId = Some True
     \<or> isTeacher c classId = Some True
     \<or> listed_in c (path c) ''subjectTeachers'' u
     \<or> field_is c (path c) ''approvedBy'' u
     \<or> field_is c (path c) ''gradedBy'' u"
proof -
  have own: "eq_r (uid c) (class_createdBy c classId) = Some True \<longleftrightarrow>
               field_is c [''classes'', classId] ''createdBy'' u"
    using assms(1) by simp
  note st = resource_lists_uid[OF assms(1), of "''subjectTeachers''"]
  note ab = resource_names_uid[OF assms(1), of "''approvedBy''"]
  note gb = resource_names_uid[OF assms(1), of "''gradedBy''"]
  show ?thesis
    using assms
    by (auto simp add: completionApprovals_block_def and_r_true[of "auth_nn c"] own st ab gb
             simp del: and_r_true uid_is_class_creator uid_is_resource_field)
qed

text \<open>
  The decision on an update or a delete of a completion approval, in terms of the stored
  documents. Through the first disjunct of \<^verbatim>\<open>isAdmin()\<close> the \<^verbatim>\<open>createdBy\<close> of the
  approval itself is one of the ways in.
\<close>

lemma completionApprovals_decision:
  assumes "path c = [''classes'', classId, ''completionApprovals'', approvalId]"
      and "auth c = Some u" and "m = Update \<or> m = Delete"
  shows "decide_current c m = Allow \<longleftrightarrow>
     field_is c [''classes'', classId] ''createdBy'' u
     \<or> field_is c (path c) ''createdBy'' u
     \<or> field_is c [''classes'', classId, ''members'', u] ''role'' ''admin''
     \<or> field_is c [''classes'', classId, ''members'', u] ''role'' ''teacher''
     \<or> listed_in c (path c) ''subjectTeachers'' u
     \<or> field_is c (path c) ''approvedBy'' u
     \<or> field_is c (path c) ''gradedBy'' u"
  using completionApprovals_update_delete[OF assms(2,3), of classId approvalId]
        isAdmin_true[OF assms(2), of classId] isTeacher_true[OF assms(2), of classId]
  by (auto simp add: decide_current_def assms(1) class_sub_current_def)

lemma isTeacher_no_member:
  "auth c = Some u \<Longrightarrow> db c [''classes'', classId, ''members'', u] = None \<Longrightarrow>
   isTeacher c classId = Some False"
  by (simp add: isTeacher_def member_path_def exists_doc_def and_r_def)

text \<open>
  C2. The specification gives six ways to update or delete a completion approval: being
  the \<^verbatim>\<open>createdBy\<close> of the class, a class admin, a class teacher, listed in the
  approval's \<^verbatim>\<open>subjectTeachers\<close>, its \<^verbatim>\<open>approvedBy\<close> or its \<^verbatim>\<open>gradedBy\<close>; otherwise
  the request is denied. The rules allow a seventh. Erin requested approval \<open>p2\<close> and
  stored her own id in its \<^verbatim>\<open>createdBy\<close>. She did not create the class, has no member
  document (so she is neither admin nor teacher), \<^verbatim>\<open>isTeacher()\<close> is false, and she is
  not in \<^verbatim>\<open>subjectTeachers\<close>, \<^verbatim>\<open>approvedBy\<close> or \<^verbatim>\<open>gradedBy\<close>. Yet
  \<^verbatim>\<open>isAdmin()\<close> is true for her, because it compares her with
  \<^verbatim>\<open>resource.data.createdBy\<close>, the approval, and she may update and delete \<open>p2\<close>.
\<close>

theorem approval_creator_may_update:
  "\<not> field_is (demo (Some ''erin'') [''classes'', ''c1'', ''completionApprovals'', ''p2''] None)
        [''classes'', ''c1''] ''createdBy'' ''erin''
   \<and> db (demo (Some ''erin'') [''classes'', ''c1'', ''completionApprovals'', ''p2''] None)
        [''classes'', ''c1'', ''members'', ''erin''] = None
   \<and> isTeacher (demo (Some ''erin'') [''classes'', ''c1'', ''completionApprovals'', ''p2''] None)
        ''c1'' = Some False
   \<and> \<not> listed_in (demo (Some ''erin'') [''classes'', ''c1'', ''completionApprovals'', ''p2''] None)
        [''classes'', ''c1'', ''completionApprovals'', ''p2''] ''subjectTeachers'' ''erin''
   \<and> \<not> field_is (demo (Some ''erin'') [''classes'', ''c1'', ''completionApprovals'', ''p2''] None)
        [''classes'', ''c1'', ''completionApprovals'', ''p2''] ''approvedBy'' ''erin''
   \<and> \<not> field_is (demo (Some ''erin'') [''classes'', ''c1'', ''completionApprovals'', ''p2''] None)
        [''classes'', ''c1'', ''completionApprovals'', ''p2''] ''gradedBy'' ''erin''
   \<and> isAdmin (demo (Some ''erin'') [''classes'', ''c1'', ''completionApprovals'', ''p2''] None)
        ''c1'' = Some True
   \<and> decide_current
        (demo (Some ''erin'') [''classes'', ''c1'', ''completionApprovals'', ''p2''] None) Update
       = Allow
   \<and> decide_current
        (demo (Some ''erin'') [''classes'', ''c1'', ''completionApprovals'', ''p2''] None) Delete
       = Allow"
  by (simp add: completionApprovals_decision[of _ "''c1''" "''p2''" "''erin''"]
        isAdmin_true isTeacher_no_member field_is_def listed_in_def demo_class
        demo_member_erin demo_approval_own)

section \<open>Subjects\<close>

lemma subjects_update:
  "grants (subjects_block c classId subjectId) Update \<longleftrightarrow>
     (\<exists>u. auth c = Some u \<and>
        (field_is c (path c) ''createdBy'' u
         \<or> field_is c [''classes'', classId] ''createdBy'' u
         \<or> isTeacherForSubject c classId subjectId = Some True))"
  by (auto simp: subjects_block_def)

lemma subjects_delete:
  "grants (subjects_block c classId subjectId) Delete \<longleftrightarrow>
     (\<exists>u. auth c = Some u \<and>
        (field_is c (path c) ''createdBy'' u
         \<or> field_is c [''classes'', classId] ''createdBy'' u))"
  by (auto simp: subjects_block_def)

text \<open>
  C4. Under the current rules a subject can be updated exactly by an authenticated actor
  who is the subject's \<^verbatim>\<open>createdBy\<close>, or the class's \<^verbatim>\<open>createdBy\<close>, or for whom
  \<^verbatim>\<open>isTeacherForSubject(subjectId)\<close> is true; it can be deleted exactly by the first
  two. \<^verbatim>\<open>isTeacherForSubject\<close> is true exactly when the actor's member document has
  the role teacher and the subject's \<^verbatim>\<open>teachers\<close> lists the actor. So an actor who is
  only such a teacher may update the subject and may not delete it.
\<close>

theorem subject_update_delete:
  assumes "path c = [''classes'', classId, ''subjects'', subjectId]"
  shows "(decide_current c Update = Allow \<longleftrightarrow>
           (\<exists>u. auth c = Some u \<and>
              (field_is c (path c) ''createdBy'' u
               \<or> field_is c [''classes'', classId] ''createdBy'' u
               \<or> isTeacherForSubject c classId subjectId = Some True)))
       \<and> (decide_current c Delete = Allow \<longleftrightarrow>
           (\<exists>u. auth c = Some u \<and>
              (field_is c (path c) ''createdBy'' u
               \<or> field_is c [''classes'', classId] ''createdBy'' u)))
       \<and> (\<forall>u. auth c = Some u \<longrightarrow>
             (isTeacherForSubject c classId subjectId = Some True \<longleftrightarrow>
                field_is c [''classes'', classId, ''members'', u] ''role'' ''teacher''
                \<and> listed_in c (path c) ''teachers'' u))"
  using subjects_update[of c classId subjectId] subjects_delete[of c classId subjectId]
  by (simp add: decide_current_def assms class_sub_current_def isTeacherForSubject_true)

text \<open>
  Carol is a teacher member and is listed in the \<^verbatim>\<open>teachers\<close> of subject \<open>s1\<close>, which
  bob created in alice's class: carol may update \<open>s1\<close> and may not delete it.
\<close>

theorem subject_update_delete_witness:
  "decide_current (demo (Some ''carol'')
      [''classes'', ''c1'', ''subjects'', ''s1''] None) Update = Allow
   \<and> decide_current (demo (Some ''carol'')
      [''classes'', ''c1'', ''subjects'', ''s1''] None) Delete \<noteq> Allow"
  using subject_update_delete
          [of "demo (Some ''carol'') [''classes'', ''c1'', ''subjects'', ''s1''] None"
              "''c1''" "''s1''"]
  by (simp add: field_is_def listed_in_def demo_subject demo_class demo_member_carol)

section \<open>User profiles\<close>

lemma users_update_owner:
  "auth c = Some userId \<Longrightarrow> grants (users_block c userId) Update"
  by (simp add: users_block_def write_ops_def str_def eq_r_true uid_eq)

lemma photo_ok_big: "incoming c = Some big_photo \<Longrightarrow> photo_ok c = Some False"
  by (simp add: photo_ok_def big_photo_def request_resource_data_def keys_r_def hasAny_r_def
        size_r_def fld_def lt_r_def or_r_def and_r_def not_r_def)

text \<open>
  C5. The \<^verbatim>\<open>users\<close> block has a statement \<^verbatim>\<open>allow update\<close> that tests the size of
  \<^verbatim>\<open>photoBase64\<close>, and before it \<^verbatim>\<open>allow write\<close> for the owner of the profile with
  no such test. Alice updates her own profile with a \<^verbatim>\<open>photoBase64\<close> of 2097152
  characters: the size test is false, and the update is allowed all the same, under both
  rule generations.
\<close>

theorem oversized_photo_update_allowed:
  "size_r (fld (request_resource_data
             (demo (Some ''alice'') [''users'', ''alice''] (Some big_photo))) ''photoBase64'')
     = Some 2097152
   \<and> photo_ok (demo (Some ''alice'') [''users'', ''alice''] (Some big_photo)) = Some False
   \<and> decide_current (demo (Some ''alice'') [''users'', ''alice''] (Some big_photo)) Update
       = Allow
   \<and> decide_legacy (demo (Some ''alice'') [''users'', ''alice''] (Some big_photo)) Update
       = Allow"
  by (simp add: photo_ok_big users_update_owner decide_current_def decide_legacy_def
        request_resource_data_def fld_def size_r_def big_photo_def)

section \<open>Documents that are not there\<close>










section \<open>The two generations of \<^verbatim>\<open>isAdmin\<close>\<close>

text \<open>
  How the two helpers relate, in terms of the stored documents: they evaluate alike unless
  the actor has a member document with the role teacher and is not the \<^verbatim>\<open>createdBy\<close>
  of the document the request addresses.
\<close>

lemma isAdmin_generations_compared:
  "(isAdmin c classId \<noteq> isAdmin_legacy c classId \<longleftrightarrow>
      (\<exists>u. auth c = Some u
         \<and> \<not> field_is c (path c) ''createdBy'' u
         \<and> field_is c [''classes'', classId, ''members'', u] ''role'' ''teacher''))
   \<and> (isAdmin c classId \<noteq> isAdmin_legacy c classId \<longrightarrow>
        isAdmin c classId = Some True \<and> isAdmin_legacy c classId \<noteq> Some True)"
proof (cases "auth c")
  case None
  then show ?thesis
    by (simp add: isAdmin_def isAdmin_legacy_def uid_def member_path_def exists_doc_def
          get_data_def fld_def eq_r_def or_r_def and_r_def)
next
  case actor: (Some u)
  let ?A = "eq_r (uid c) (fld (resource_data c) ''createdBy'')"
  let ?m = "[''classes'', classId, ''members'', u]"
  have A: "?A = Some True \<longleftrightarrow> field_is c (path c) ''createdBy'' u"
    using actor by simp
  show ?thesis
  proof (cases "db c ?m")
    case None
    then show ?thesis
      using actor
      by (simp add: isAdmin_def isAdmin_legacy_def member_path_def exists_doc_def
          get_data_def fld_def eq_r_def or_r_def and_r_def field_is_def)
  next
    case member: (Some d)
    have cur: "isAdmin c classId =
                 or_r ?A (or_r (Some (map_of d ''role'' = Some (VStr ''admin'')))
                               (Some (map_of d ''role'' = Some (VStr ''teacher''))))"
      if "map_of d ''role'' \<noteq> None"
      using actor member that
      by (auto simp: isAdmin_def member_path_def exists_doc_def get_data_def fld_def
            eq_r_def str_def and_r_def or_r_def)
    have leg: "isAdmin_legacy c classId =
                 or_r ?A (Some (map_of d ''role'' = Some (VStr ''admin'')))"
      if "map_of d ''role'' \<noteq> None"
      using actor member that
      by (auto simp: isAdmin_legacy_def member_path_def exists_doc_def get_data_def fld_def
            eq_r_def str_def and_r_def or_r_def)
    have role: "field_is c ?m ''role'' ''teacher'' \<longleftrightarrow> map_of d ''role'' = Some (VStr ''teacher'')"
      using member by (simp add: field_is_def)
    show ?thesis
    proof (cases "map_of d ''role''")
      case None
      then show ?thesis
        using actor member
        by (simp add: isAdmin_def isAdmin_legacy_def member_path_def exists_doc_def
            get_data_def fld_def eq_r_def or_r_def and_r_def field_is_def)
    next
      case (Some r)
      then show ?thesis
        using actor cur leg role A
        by (cases ?A) (auto simp: or_r_def)
    qed
  qed
qed

text \<open>
  C6. The specification says that the two \<^verbatim>\<open>isAdmin()\<close> differ exactly when the actor
  is not the owner of the class and has a member document with the role teacher, the
  current one being true and the legacy one false. Carol is a teacher member of class
  \<open>c1\<close>, which alice owns, and carol created gallery image \<open>g1\<close>. On a request of carol
  for \<open>g1\<close> both helpers are true: their first disjunct compares the actor with
  \<^verbatim>\<open>resource.data.createdBy\<close>, and \<^verbatim>\<open>resource\<close> is the document the request
  addresses, the image, not the class.
\<close>

theorem isAdmin_tests_accessed_document:
  "\<not> field_is (demo (Some ''carol'') [''classes'', ''c1'', ''gallery'', ''g1''] None)
        [''classes'', ''c1''] ''createdBy'' ''carol''
   \<and> field_is (demo (Some ''carol'') [''classes'', ''c1'', ''gallery'', ''g1''] None)
        [''classes'', ''c1'', ''members'', ''carol''] ''role'' ''teacher''
   \<and> isAdmin (demo (Some ''carol'') [''classes'', ''c1'', ''gallery'', ''g1''] None) ''c1''
       = Some True
   \<and> isAdmin_legacy (demo (Some ''carol'') [''classes'', ''c1'', ''gallery'', ''g1''] None)
       ''c1'' = Some True"
  by (simp add: isAdmin_true isAdmin_legacy_true field_is_def demo_class demo_member_carol
        demo_gallery)

end
